theory Spec2Isabelle
  imports Main
begin

section \<open>The Python runtime that \<open>seal/components/base.py\<close> relies on\<close>

text \<open>
  \<open>base.py\<close> declares five classes whose only executable code is four \<open>__call__\<close>
  bodies; everything else the claims speak about is what Python does with these
  declarations: \<open>isinstance\<close>, method resolution along the \<open>__mro__\<close>, the
  \<open>__abstractmethods__\<close> set that \<open>ABCMeta\<close> computes when a class is created,
  and the check of that set when a class is instantiated.  This section models that
  part of the runtime; the next one is the file itself.
\<close>

subsection \<open>Values, exceptions, arguments\<close>

text \<open>
  A value is \<open>None\<close>, an integer, or a reference to an object: the names of the classes
  in the \<open>__mro__\<close> of its runtime type and its address.  What an object holds lives
  in the heap, which the model leaves abstract (the type variable \<open>'u\<close> below).
\<close>

datatype pyval = PyNone | PyInt int | PyObject (obj_mro: "string list") (obj_addr: nat)

datatype pyexc =
    TypeError string
  | AttributeError string
  | RecursionError
  | UserException string

datatype pyargs = Args (pos_args: "pyval list") (kw_args: "(string \<times> pyval) list")

fun type_mro :: "pyval \<Rightarrow> string list" where
  "type_mro PyNone = [''NoneType'', ''object'']"
| "type_mro (PyInt i) = [''int'', ''object'']"
| "type_mro (PyObject mro a) = mro"

text \<open>\<open>isinstance(v, C)\<close>: the class \<open>C\<close> is in the \<open>__mro__\<close> of \<open>type(v)\<close>.\<close>

definition isinstance :: "pyval \<Rightarrow> string \<Rightarrow> bool" where
  "isinstance v c = (c \<in> set (type_mro v))"

text \<open>
  Modelled from the spec: the classes \<open>Experiment\<close> and \<open>Run\<close> are imported from
  \<open>seal.experiment\<close> and \<open>seal.run\<close>, which are not part of the fragment.  The
  spec calls them opaque external entities whose identity is distinguishable at
  runtime; they are modelled by their names.
\<close>

definition Experiment :: string where
  "Experiment = ''Experiment''"

definition Run :: string where
  "Run = ''Run''"

subsection \<open>The world: a heap and the calls a body makes on \<open>self\<close>\<close>

text \<open>
  \<open>calls\<close> is a ghost log: every method call \<open>self.m(...)\<close> that a body of
  \<open>base.py\<close> performs appends one entry (receiver, method name, arguments) before
  the callee runs.  User code never sees the log: it works on the heap alone.
\<close>

datatype pycall = Call (receiver: nat) (callee: string) (arguments: pyargs)

record 'u world =
  calls :: "pycall list"
  heap :: 'u

type_synonym 'u outcome = "(pyexc + pyval) \<times> 'u world"

text \<open>A method written outside \<open>base.py\<close>: \<open>self\<close>, the arguments, the heap.\<close>

type_synonym 'u native = "nat \<Rightarrow> pyargs \<Rightarrow> 'u \<Rightarrow> (pyexc + pyval) \<times> 'u"

definition run_native :: "'u native \<Rightarrow> nat \<Rightarrow> pyargs \<Rightarrow> 'u world \<Rightarrow> 'u outcome" where
  "run_native f self args w = (case f self args (heap w) of (r, u') \<Rightarrow> (r, w\<lparr>heap := u'\<rparr>))"

text \<open>A body that only says \<open>pass\<close> falls off its end and returns \<open>None\<close>.\<close>

definition pass :: "'w \<Rightarrow> (pyexc + pyval) \<times> 'w" where
  "pass w = (Inr PyNone, w)"

subsection \<open>Binding the arguments of a call to the parameters of a \<open>def\<close>\<close>

fun bind_positional :: "string list \<Rightarrow> pyval list \<Rightarrow> pyexc + (string \<times> pyval) list" where
  "bind_positional ps [] = Inr []"
| "bind_positional [] (v # vs) = Inl (TypeError ''too many positional arguments'')"
| "bind_positional (p # ps) (v # vs) =
     (case bind_positional ps vs of Inl e \<Rightarrow> Inl e | Inr b \<Rightarrow> Inr ((p, v) # b))"

text \<open>
  \<open>bind_params ps var_kw args\<close>: the values of the parameters \<open>ps\<close> (after \<open>self\<close>), in
  order; \<open>var_kw\<close> says whether the signature ends in \<open>**kwargs\<close>.
\<close>

definition bind_params :: "string list \<Rightarrow> bool \<Rightarrow> pyargs \<Rightarrow> pyexc + pyval list" where
  "bind_params ps var_kw args =
     (case bind_positional ps (pos_args args) of
        Inl e \<Rightarrow> Inl e
      | Inr b \<Rightarrow>
          if list_ex (\<lambda>k. k \<in> set (map fst b)) (map fst (kw_args args))
          then Inl (TypeError ''multiple values for argument'')
          else if \<not> var_kw \<and> list_ex (\<lambda>k. k \<notin> set ps) (map fst (kw_args args))
          then Inl (TypeError ''unexpected keyword argument'')
          else if list_ex (\<lambda>p. map_of (b @ kw_args args) p = None) ps
          then Inl (TypeError ''missing required argument'')
          else Inr (map (\<lambda>p. case map_of (b @ kw_args args) p of Some v \<Rightarrow> v | None \<Rightarrow> PyNone) ps))"

subsection \<open>Classes\<close>

text \<open>
  The methods of \<open>base.py\<close> are named by \<open>src_method\<close> and interpreted by
  \<open>src_exec\<close> below; a method written elsewhere is a \<open>Native\<close> function.
  \<open>isabstractmethod\<close> is the flag that \<open>@abstractmethod\<close> sets on a function.
\<close>

datatype src_method =
    M_Component_call
  | M_ExperimentComponent_call
  | M_ExperimentComponent_call_on_experiment
  | M_RunComponent_call
  | M_RunComponent_call_on_run
  | M_HybridComponent_call
  | M_Logger_init
  | M_Logger_call
  | M_Logger_log_experiment
  | M_Logger_log_run
  | M_Logger_log_metrics
  | M_Logger_log_params
  | M_Logger_log_model

datatype 'u body = Src src_method | Native "'u native"

datatype 'u pymethod = Method (isabstractmethod: bool) (impl: "'u body")

type_synonym 'u namespace = "(string \<times> 'u pymethod) list"

text \<open>
  A class object: its name, its own namespace, its \<open>__mro__\<close> (itself first; each
  entry is a class name with that class's namespace) and its \<open>__abstractmethods__\<close>.
\<close>

record 'u pyclass =
  cls_name :: string
  cls_dict :: "'u namespace"
  cls_mro :: "(string \<times> 'u namespace) list"
  cls_abstractmethods :: "string list"

definition cls_entry :: "'u pyclass \<Rightarrow> string \<times> 'u namespace" where
  "cls_entry c = (cls_name c, cls_dict c)"

definition object_cls :: "'u pyclass" where
  "object_cls = \<lparr>cls_name = ''object'', cls_dict = [], cls_mro = [(''object'', [])],
                 cls_abstractmethods = []\<rparr>"

text \<open>Attribute lookup on a class: the first namespace along the \<open>__mro__\<close> that has the name.\<close>

fun lookup_mro :: "(string \<times> 'u namespace) list \<Rightarrow> string \<Rightarrow> 'u pymethod option" where
  "lookup_mro [] n = None"
| "lookup_mro ((c, ns) # rest) n =
     (case map_of ns n of Some m \<Rightarrow> Some m | None \<Rightarrow> lookup_mro rest n)"

definition getattr_cls :: "'u pyclass \<Rightarrow> string \<Rightarrow> 'u pymethod option" where
  "getattr_cls c n = lookup_mro (cls_mro c) n"

text \<open>
  The C3 merge that computes an \<open>__mro__\<close>: take the first head that is in no tail,
  remove it everywhere, repeat; no such head is an inconsistent hierarchy.
\<close>

definition c3_candidate :: "(string \<times> 'b) list list \<Rightarrow> (string \<times> 'b) \<Rightarrow> bool" where
  "c3_candidate seqs c = list_all (\<lambda>s. fst c \<notin> set (map fst (tl s))) seqs"

definition c3_remove :: "string \<Rightarrow> (string \<times> 'b) list \<Rightarrow> (string \<times> 'b) list" where
  "c3_remove n s = (case s of [] \<Rightarrow> [] | c # cs \<Rightarrow> if fst c = n then cs else c # cs)"

lemma c3_remove_le: "length (c3_remove n s) \<le> length s"
  by (simp add: c3_remove_def split: list.splits)

lemma c3_remove_hd: "s \<noteq> [] \<Longrightarrow> length (c3_remove (fst (hd s)) s) < length s"
  by (cases s) (simp_all add: c3_remove_def)

lemma sum_list_map_le:
  "(\<And>x. x \<in> set xs \<Longrightarrow> f x \<le> (g x :: nat)) \<Longrightarrow> sum_list (map f xs) \<le> sum_list (map g xs)"
  by (induction xs) (simp_all add: add_mono)

lemma sum_list_map_less:
  assumes "\<And>x. x \<in> set xs \<Longrightarrow> f x \<le> (g x :: nat)" and "y \<in> set xs" and "f y < g y"
  shows "sum_list (map f xs) < sum_list (map g xs)"
  using assms
proof (induction xs)
  case Nil
  then show ?case by simp
next
  case (Cons x xs)
  show ?case
  proof (cases "y = x")
    case True
    have "sum_list (map f xs) \<le> sum_list (map g xs)"
      using Cons.prems(1) by (intro sum_list_map_le) simp
    with True Cons.prems(3) show ?thesis by simp
  next
    case False
    with Cons.prems have "y \<in> set xs" by simp
    then have "sum_list (map f xs) < sum_list (map g xs)"
      using Cons.IH Cons.prems by simp
    moreover have "f x \<le> g x" using Cons.prems(1) by simp
    ultimately show ?thesis by simp
  qed
qed

lemma sum_list_length_filter: "sum_list (map length (filter P xs)) \<le> sum_list (map length xs)"
  by (induction xs) simp_all

lemma find_Some_in_set: "List.find P xs = Some x \<Longrightarrow> x \<in> set xs"
  by (induction xs) (auto split: if_splits)

lemma c3_step_decreases:
  assumes "List.find P (map hd (filter (\<lambda>s. s \<noteq> []) seqs)) = Some c"
  shows "sum_list (map (length \<circ> c3_remove (fst c)) (filter (\<lambda>s. s \<noteq> []) seqs))
           < sum_list (map length seqs)"
proof -
  let ?ne = "filter (\<lambda>s. s \<noteq> []) seqs"
  from assms have "c \<in> set (map hd ?ne)"
    by (rule find_Some_in_set)
  then obtain s where s: "s \<in> set ?ne" "c = hd s" by auto
  then have "s \<noteq> []" by simp
  then have "length (c3_remove (fst c) s) < length s"
    using s(2) c3_remove_hd by simp
  then have "sum_list (map (\<lambda>t. length (c3_remove (fst c) t)) ?ne) < sum_list (map length ?ne)"
    using s(1) by (intro sum_list_map_less [where y = s]) (simp_all add: c3_remove_le)
  also have "\<dots> \<le> sum_list (map length seqs)"
    by (rule sum_list_length_filter)
  finally show ?thesis by (simp add: comp_def)
qed

function c3_merge :: "(string \<times> 'b) list list \<Rightarrow> (string \<times> 'b) list option" where
  "c3_merge seqs =
     (if filter (\<lambda>s. s \<noteq> []) seqs = [] then Some []
      else (case List.find (c3_candidate (filter (\<lambda>s. s \<noteq> []) seqs))
                           (map hd (filter (\<lambda>s. s \<noteq> []) seqs)) of
              None \<Rightarrow> None
            | Some c \<Rightarrow>
                (case c3_merge (map (c3_remove (fst c)) (filter (\<lambda>s. s \<noteq> []) seqs)) of
                   None \<Rightarrow> None
                 | Some rest \<Rightarrow> Some (c # rest))))"
  by pat_completeness auto
termination
  by (relation "measure (\<lambda>seqs. sum_list (map length seqs))") (simp_all add: c3_step_decreases)

declare c3_merge.simps [simp del]

subsection \<open>Creating a class: \<open>ABCMeta.__new__\<close>\<close>

text \<open>\<open>getattr(value, "__isabstractmethod__", False)\<close>, for the result of a lookup.\<close>

definition is_abstract :: "'u pymethod option \<Rightarrow> bool" where
  "is_abstract v = (case v of None \<Rightarrow> False | Some m \<Rightarrow> isabstractmethod m)"

text \<open>
  \<open>__abstractmethods__\<close> as \<open>abc\<close> computes it: the names of the class body that are
  abstract, and the names in the \<open>__abstractmethods__\<close> of a base that are still
  abstract when looked up on the new class.
\<close>

definition abstractmethods ::
  "'u pyclass list \<Rightarrow> 'u namespace \<Rightarrow> (string \<times> 'u namespace) list \<Rightarrow> string list" where
  "abstractmethods bases ns mro =
     remdups (filter (\<lambda>n. is_abstract (map_of ns n)) (map fst ns) @
              filter (\<lambda>n. is_abstract (lookup_mro mro n)) (concat (map cls_abstractmethods bases)))"

definition ABCMeta_new :: "string \<Rightarrow> 'u pyclass list \<Rightarrow> 'u namespace \<Rightarrow> pyexc + 'u pyclass" where
  "ABCMeta_new name bases ns =
     (case c3_merge (map cls_mro bases @ [map cls_entry bases]) of
        None \<Rightarrow> Inl (TypeError ''Cannot create a consistent method resolution order (MRO)'')
      | Some rest \<Rightarrow>
          Inr \<lparr>cls_name = name, cls_dict = ns, cls_mro = (name, ns) # rest,
               cls_abstractmethods = abstractmethods bases ns ((name, ns) # rest)\<rparr>)"

text \<open>
  A \<open>class\<close> statement binds its name to the class it creates.  When the creation
  raises, the statement raises and binds nothing; for the five classes of \<open>base.py\<close>
  it does not (lemmas \<open>*_created\<close> below).
\<close>

definition class_stmt :: "string \<Rightarrow> 'u pyclass list \<Rightarrow> 'u namespace \<Rightarrow> 'u pyclass" where
  "class_stmt name bases ns = (case ABCMeta_new name bases ns of Inr c \<Rightarrow> c | Inl e \<Rightarrow> object_cls)"

subsection \<open>Running a method\<close>

text \<open>
  \<open>self.name(args)\<close> inside a body: the name is looked up on the class of \<open>self\<close>,
  the call is logged and the method found is run by \<open>run\<close>.  (An attribute stored on
  the instance under the name of a method would be found first; instances that shadow
  their methods are left out.)
\<close>

definition call_method ::
  "('u body \<Rightarrow> pyargs \<Rightarrow> 'u world \<Rightarrow> 'u outcome) \<Rightarrow> 'u pyclass \<Rightarrow> nat \<Rightarrow>
     string \<Rightarrow> pyargs \<Rightarrow> 'u world \<Rightarrow> 'u outcome" where
  "call_method run c self name args w =
     (case getattr_cls c name of
        None \<Rightarrow> (Inl (AttributeError name), w)
      | Some m \<Rightarrow> run (impl m) args (w\<lparr>calls := calls w @ [Call self name args]\<rparr>))"

text \<open>An expression statement that is the last statement of a body: its value is dropped.\<close>

definition expr_stmt :: "(pyexc + pyval) \<times> 'w \<Rightarrow> (pyexc + pyval) \<times> 'w" where
  "expr_stmt r = (case r of (Inl e, w') \<Rightarrow> (Inl e, w') | (Inr v, w') \<Rightarrow> (Inr PyNone, w'))"

text \<open>A method with one parameter after \<open>self\<close>; a method with none; one with \<open>**kwargs\<close> only.\<close>

definition with_param ::
  "string \<Rightarrow> pyargs \<Rightarrow> (pyval \<Rightarrow> 'w \<Rightarrow> (pyexc + pyval) \<times> 'w) \<Rightarrow> 'w \<Rightarrow> (pyexc + pyval) \<times> 'w" where
  "with_param p args k w =
     (case bind_params [p] False args of
        Inl e \<Rightarrow> (Inl e, w)
      | Inr vs \<Rightarrow> (case vs of [v] \<Rightarrow> k v w | _ \<Rightarrow> (Inl (TypeError ''missing required argument''), w)))"

definition with_no_param ::
  "bool \<Rightarrow> pyargs \<Rightarrow> ('w \<Rightarrow> (pyexc + pyval) \<times> 'w) \<Rightarrow> 'w \<Rightarrow> (pyexc + pyval) \<times> 'w" where
  "with_no_param var_kw args k w =
     (case bind_params [] var_kw args of Inl e \<Rightarrow> (Inl e, w) | Inr vs \<Rightarrow> k w)"

section \<open>\<open>seal/components/base.py\<close>\<close>

text \<open>
  Each body takes \<open>self_call\<close>, the call of a method on \<open>self\<close>, since that is all it
  does with \<open>self\<close>.
\<close>

subsection \<open>\<open>class Component(object, metaclass=ABCMeta)\<close>\<close>

definition Component_call :: "'w \<Rightarrow> (pyexc + pyval) \<times> 'w" where
  "Component_call w = pass w"

subsection \<open>\<open>class ExperimentComponent(Component)\<close>\<close>

definition ExperimentComponent_call ::
  "(string \<Rightarrow> pyargs \<Rightarrow> 'w \<Rightarrow> (pyexc + pyval) \<times> 'w) \<Rightarrow> pyval \<Rightarrow> 'w \<Rightarrow> (pyexc + pyval) \<times> 'w" where
  "ExperimentComponent_call self_call object w =
     self_call ''_call_on_experiment'' (Args [object] []) w"

definition ExperimentComponent_call_on_experiment :: "pyval \<Rightarrow> 'w \<Rightarrow> (pyexc + pyval) \<times> 'w" where
  "ExperimentComponent_call_on_experiment object w = pass w"

subsection \<open>\<open>class RunComponent(Component)\<close>\<close>

definition RunComponent_call ::
  "(string \<Rightarrow> pyargs \<Rightarrow> 'w \<Rightarrow> (pyexc + pyval) \<times> 'w) \<Rightarrow> pyval \<Rightarrow> 'w \<Rightarrow> (pyexc + pyval) \<times> 'w" where
  "RunComponent_call self_call object w =
     self_call ''_call_on_run'' (Args [object] []) w"

definition RunComponent_call_on_run :: "pyval \<Rightarrow> 'w \<Rightarrow> (pyexc + pyval) \<times> 'w" where
  "RunComponent_call_on_run object w = pass w"

subsection \<open>\<open>class HybridComponent(ExperimentComponent, RunComponent)\<close>\<close>

definition HybridComponent_call ::
  "(string \<Rightarrow> pyargs \<Rightarrow> 'w \<Rightarrow> (pyexc + pyval) \<times> 'w) \<Rightarrow> pyval \<Rightarrow> 'w \<Rightarrow> (pyexc + pyval) \<times> 'w" where
  "HybridComponent_call self_call object w =
     (if isinstance object Experiment then
        self_call ''_call_on_experiment'' (Args [object] []) w
      else if isinstance object Run then
        self_call ''_call_on_run'' (Args [object] []) w
      else (Inr PyNone, w))"

subsection \<open>\<open>class Logger(Component, metaclass=ABCMeta)\<close>\<close>

definition Logger_init :: "'w \<Rightarrow> (pyexc + pyval) \<times> 'w" where
  "Logger_init w = pass w"

definition Logger_call ::
  "(string \<Rightarrow> pyargs \<Rightarrow> 'w \<Rightarrow> (pyexc + pyval) \<times> 'w) \<Rightarrow> pyval \<Rightarrow> 'w \<Rightarrow> (pyexc + pyval) \<times> 'w" where
  "Logger_call self_call obj w =
     (if isinstance obj Experiment then
        expr_stmt (self_call ''log_experiment'' (Args [obj] []) w)
      else if isinstance obj Run then
        expr_stmt (self_call ''log_run'' (Args [obj] []) w)
      else (Inr PyNone, w))"

definition Logger_log_experiment :: "pyval \<Rightarrow> 'w \<Rightarrow> (pyexc + pyval) \<times> 'w" where
  "Logger_log_experiment experiment w = pass w"

definition Logger_log_run :: "pyval \<Rightarrow> 'w \<Rightarrow> (pyexc + pyval) \<times> 'w" where
  "Logger_log_run run w = pass w"

definition Logger_log_metrics :: "'w \<Rightarrow> (pyexc + pyval) \<times> 'w" where
  "Logger_log_metrics w = pass w"

definition Logger_log_params :: "'w \<Rightarrow> (pyexc + pyval) \<times> 'w" where
  "Logger_log_params w = pass w"

definition Logger_log_model :: "'w \<Rightarrow> (pyexc + pyval) \<times> 'w" where
  "Logger_log_model w = pass w"

subsection \<open>The signatures, and the five class statements\<close>

fun src_exec ::
  "src_method \<Rightarrow> (string \<Rightarrow> pyargs \<Rightarrow> 'w \<Rightarrow> (pyexc + pyval) \<times> 'w) \<Rightarrow> pyargs \<Rightarrow> 'w \<Rightarrow>
     (pyexc + pyval) \<times> 'w" where
  "src_exec M_Component_call self_call args w = with_no_param False args Component_call w"
| "src_exec M_ExperimentComponent_call self_call args w =
     with_param ''object'' args (ExperimentComponent_call self_call) w"
| "src_exec M_ExperimentComponent_call_on_experiment self_call args w =
     with_param ''object'' args ExperimentComponent_call_on_experiment w"
| "src_exec M_RunComponent_call self_call args w =
     with_param ''object'' args (RunComponent_call self_call) w"
| "src_exec M_RunComponent_call_on_run self_call args w =
     with_param ''object'' args RunComponent_call_on_run w"
| "src_exec M_HybridComponent_call self_call args w =
     with_param ''object'' args (HybridComponent_call self_call) w"
| "src_exec M_Logger_init self_call args w = with_no_param True args Logger_init w"
| "src_exec M_Logger_call self_call args w =
     with_param ''obj'' args (Logger_call self_call) w"
| "src_exec M_Logger_log_experiment self_call args w =
     with_param ''experiment'' args Logger_log_experiment w"
| "src_exec M_Logger_log_run self_call args w =
     with_param ''run'' args Logger_log_run w"
| "src_exec M_Logger_log_metrics self_call args w = with_no_param True args Logger_log_metrics w"
| "src_exec M_Logger_log_params self_call args w = with_no_param True args Logger_log_params w"
| "src_exec M_Logger_log_model self_call args w = with_no_param True args Logger_log_model w"

definition Component :: "'u pyclass" where
  "Component = class_stmt ''Component'' [object_cls]
     [(''__call__'', Method True (Src M_Component_call))]"

definition ExperimentComponent :: "'u pyclass" where
  "ExperimentComponent = class_stmt ''ExperimentComponent'' [Component]
     [(''__call__'', Method False (Src M_ExperimentComponent_call)),
      (''_call_on_experiment'', Method True (Src M_ExperimentComponent_call_on_experiment))]"

definition RunComponent :: "'u pyclass" where
  "RunComponent = class_stmt ''RunComponent'' [Component]
     [(''__call__'', Method False (Src M_RunComponent_call)),
      (''_call_on_run'', Method True (Src M_RunComponent_call_on_run))]"

definition HybridComponent :: "'u pyclass" where
  "HybridComponent = class_stmt ''HybridComponent'' [ExperimentComponent, RunComponent]
     [(''__call__'', Method False (Src M_HybridComponent_call))]"

definition Logger :: "'u pyclass" where
  "Logger = class_stmt ''Logger'' [Component]
     [(''__init__'', Method True (Src M_Logger_init)),
      (''__call__'', Method False (Src M_Logger_call)),
      (''log_experiment'', Method True (Src M_Logger_log_experiment)),
      (''log_run'', Method True (Src M_Logger_log_run)),
      (''_log_metrics'', Method True (Src M_Logger_log_metrics)),
      (''_log_params'', Method True (Src M_Logger_log_params)),
      (''_log_model'', Method True (Src M_Logger_log_model))]"

section \<open>Calling and instantiating\<close>

text \<open>
  \<open>exec depth c self b args\<close> runs the method \<open>b\<close> on an instance \<open>self\<close> of the class
  \<open>c\<close>.  \<open>depth\<close> is the number of frames the interpreter still allows: a call with
  none left raises \<open>RecursionError\<close>, and each call a body makes has one frame less.
\<close>

primrec exec ::
  "nat \<Rightarrow> 'u pyclass \<Rightarrow> nat \<Rightarrow> 'u body \<Rightarrow> pyargs \<Rightarrow> 'u world \<Rightarrow> 'u outcome" where
  "exec 0 c self b args w = (Inl RecursionError, w)"
| "exec (Suc d) c self b args w =
     (case b of
        Native f \<Rightarrow> run_native f self args w
      | Src m \<Rightarrow> src_exec m (call_method (exec d c self) c self) args w)"

text \<open>\<open>obj(*args, **kwargs)\<close>: \<open>__call__\<close> is looked up on the class of \<open>obj\<close>.\<close>

definition invoke :: "nat \<Rightarrow> 'u pyclass \<Rightarrow> nat \<Rightarrow> pyargs \<Rightarrow> 'u world \<Rightarrow> 'u outcome" where
  "invoke depth c self args w =
     (case getattr_cls c ''__call__'' of
        None \<Rightarrow> (Inl (TypeError ''object is not callable''), w)
      | Some m \<Rightarrow> exec depth c self (impl m) args w)"

text \<open>
  \<open>C(**kwargs)\<close> is \<open>type.__call__\<close>: it calls \<open>__new__\<close> and, when the result is an
  instance of \<open>C\<close>, initialises it with \<open>__init__\<close>, which must return \<open>None\<close>.

  A class that defines no \<open>__new__\<close> is constructed by \<open>object.__new__\<close>, which makes
  two checks, in this order: arguments passed to a class that has no \<open>__init__\<close> either
  are refused (\<open>C() takes no arguments\<close>); then a class whose \<open>__abstractmethods__\<close> is
  not empty is refused.  Only then is the object allocated (at the fresh address
  \<open>addr\<close>).  The class \<open>object\<close> is modelled with an empty namespace, so a lookup of
  \<open>__new__\<close> or \<open>__init__\<close> that finds nothing has found that of \<open>object\<close>.

  A \<open>__new__\<close> written in a class is a \<open>Native\<close> like any other method: it returns what
  it wants, an instance or not, and no check of \<open>object.__new__\<close> is made unless it
  makes it (then it raises, which a \<open>Native\<close> can do).
\<close>

definition abstract_class_error :: "'u pyclass \<Rightarrow> pyexc" where
  "abstract_class_error c =
     TypeError (''Cannot instantiate abstract class '' @ cls_name c @ '' with abstract methods'')"

definition no_arguments_error :: "'u pyclass \<Rightarrow> pyexc" where
  "no_arguments_error c = TypeError (cls_name c @ ''() takes no arguments'')"

definition new_object :: "'u pyclass \<Rightarrow> nat \<Rightarrow> pyval" where
  "new_object c addr = PyObject (map fst (cls_mro c)) addr"

definition has_init :: "'u pyclass \<Rightarrow> bool" where
  "has_init c = (case getattr_cls c ''__init__'' of None \<Rightarrow> False | Some m \<Rightarrow> True)"

definition object_new :: "'u pyclass \<Rightarrow> nat \<Rightarrow> (string \<times> pyval) list \<Rightarrow> pyexc + pyval" where
  "object_new c addr kwargs =
     (if kwargs \<noteq> [] \<and> \<not> has_init c then Inl (no_arguments_error c)
      else if cls_abstractmethods c \<noteq> [] then Inl (abstract_class_error c)
      else Inr (new_object c addr))"

definition run_init ::
  "nat \<Rightarrow> 'u pyclass \<Rightarrow> nat \<Rightarrow> pyval \<Rightarrow> (string \<times> pyval) list \<Rightarrow> 'u world \<Rightarrow> 'u outcome" where
  "run_init depth c self obj kwargs w =
     (case getattr_cls c ''__init__'' of
        None \<Rightarrow> (Inr obj, w)
      | Some m \<Rightarrow>
          (case exec depth c self (impl m) (Args [] kwargs) w of
             (Inl e, w') \<Rightarrow> (Inl e, w')
           | (Inr v, w') \<Rightarrow>
               if v = PyNone then (Inr obj, w')
               else (Inl (TypeError ''__init__() should return None''), w')))"

definition instantiate ::
  "nat \<Rightarrow> 'u pyclass \<Rightarrow> nat \<Rightarrow> (string \<times> pyval) list \<Rightarrow> 'u world \<Rightarrow> 'u outcome" where
  "instantiate depth c addr kwargs w =
     (case getattr_cls c ''__new__'' of
        None \<Rightarrow>
          (case object_new c addr kwargs of
             Inl e \<Rightarrow> (Inl e, w)
           | Inr obj \<Rightarrow> run_init depth c addr obj kwargs w)
      | Some m \<Rightarrow>
          (case exec depth c addr (impl m) (Args [] kwargs) w of
             (Inl e, w') \<Rightarrow> (Inl e, w')
           | (Inr obj, w') \<Rightarrow>
               (case obj of
                  PyObject mro self \<Rightarrow>
                    if cls_name c \<in> set mro then run_init depth c self obj kwargs w'
                    else (Inr obj, w')
                | _ \<Rightarrow> (Inr obj, w'))))"

section \<open>Outcomes and example components\<close>

text \<open>
  \<open>hook_outcome h self name x w\<close> is the world after exactly one call \<open>self.name(x)\<close>
  made from the world \<open>w\<close>, where the method called is the function \<open>h\<close>: the value or
  exception of \<open>h\<close>, one new entry in the log, the heap as \<open>h\<close> left it.
  \<open>new_calls w out\<close> are the log entries of an outcome that \<open>w\<close> did not have.
\<close>

definition hook_outcome :: "'u native \<Rightarrow> nat \<Rightarrow> string \<Rightarrow> pyval \<Rightarrow> 'u world \<Rightarrow> 'u outcome" where
  "hook_outcome h self name x w =
     (case h self (Args [x] []) (heap w) of
        (r, u') \<Rightarrow> (r, \<lparr>calls = calls w @ [Call self name (Args [x] [])], heap = u'\<rparr>))"

definition new_calls :: "'u world \<Rightarrow> 'u outcome \<Rightarrow> pycall list" where
  "new_calls w out = drop (length (calls w)) (calls (snd out))"

text \<open>
  Components and loggers to run the statements on.  Their heap is a journal that a hook
  appends to; \<open>journal_hook\<close> returns a value that is not \<open>None\<close>, \<open>failing_hook\<close>
  raises after writing, \<open>noop\<close> is a body that says \<open>pass\<close>.  \<open>NullLogger5\<close> implements
  the five logging methods and leaves \<open>__init__\<close> as \<open>Logger\<close> declares it;
  \<open>NullLogger\<close> implements \<open>__init__\<close> too.  \<open>Incomplete name base\<close> is
  \<open>class name(base): pass\<close>.  \<open>Bypass\<close> implements no hook and has a \<open>__new__\<close> that
  says \<open>pass\<close>, so that it returns \<open>None\<close>.
\<close>

type_synonym journal = "(string \<times> pyargs) list"

definition journal_hook :: "string \<Rightarrow> journal native" where
  "journal_hook tag self args u = (Inr (PyInt (int (length u))), u @ [(tag, args)])"

definition failing_hook :: "journal native" where
  "failing_hook self args u = (Inl (UserException ''disk full''), u @ [(''failed'', args)])"

definition noop :: "'u native" where
  "noop self args u = (Inr PyNone, u)"

definition an_experiment :: pyval where
  "an_experiment = PyObject [''Experiment'', ''object''] 10"

definition a_run :: pyval where
  "a_run = PyObject [''Run'', ''object''] 11"

definition a_both :: pyval where
  "a_both = PyObject [''Both'', ''Experiment'', ''Run'', ''object''] 12"

definition w0 :: "journal world" where
  "w0 = \<lparr>calls = [], heap = []\<rparr>"

definition ExperimentRecorder :: "journal pyclass" where
  "ExperimentRecorder = class_stmt ''ExperimentRecorder'' [ExperimentComponent]
     [(''_call_on_experiment'', Method False (Native (journal_hook ''experiment'')))]"

definition FailingRecorder :: "journal pyclass" where
  "FailingRecorder = class_stmt ''FailingRecorder'' [ExperimentComponent]
     [(''_call_on_experiment'', Method False (Native failing_hook))]"

definition RunRecorder :: "journal pyclass" where
  "RunRecorder = class_stmt ''RunRecorder'' [RunComponent]
     [(''_call_on_run'', Method False (Native (journal_hook ''run'')))]"

definition HybridRecorder :: "journal pyclass" where
  "HybridRecorder = class_stmt ''HybridRecorder'' [HybridComponent]
     [(''_call_on_experiment'', Method False (Native (journal_hook ''experiment''))),
      (''_call_on_run'', Method False (Native (journal_hook ''run'')))]"

definition RecordingLogger :: "journal pyclass" where
  "RecordingLogger = class_stmt ''RecordingLogger'' [Logger]
     [(''__init__'', Method False (Native noop)),
      (''log_experiment'', Method False (Native (journal_hook ''experiment''))),
      (''log_run'', Method False (Native (journal_hook ''run''))),
      (''_log_metrics'', Method False (Native (journal_hook ''metrics''))),
      (''_log_params'', Method False (Native (journal_hook ''params''))),
      (''_log_model'', Method False (Native (journal_hook ''model'')))]"

definition SilentLogger :: "journal pyclass" where
  "SilentLogger = class_stmt ''SilentLogger'' [Logger]
     [(''__init__'', Method False (Native noop)),
      (''log_experiment'', Method False (Native (journal_hook ''experiment''))),
      (''log_run'', Method False (Native (journal_hook ''run''))),
      (''_log_metrics'', Method False (Native failing_hook)),
      (''_log_params'', Method False (Native failing_hook)),
      (''_log_model'', Method False (Native failing_hook))]"

definition NullLogger5 :: "journal pyclass" where
  "NullLogger5 = class_stmt ''NullLogger'' [Logger]
     [(''log_experiment'', Method False (Native noop)),
      (''log_run'', Method False (Native noop)),
      (''_log_metrics'', Method False (Native noop)),
      (''_log_params'', Method False (Native noop)),
      (''_log_model'', Method False (Native noop))]"

definition NullLogger :: "journal pyclass" where
  "NullLogger = class_stmt ''NullLogger'' [Logger]
     [(''__init__'', Method False (Native noop)),
      (''log_experiment'', Method False (Native noop)),
      (''log_run'', Method False (Native noop)),
      (''_log_metrics'', Method False (Native noop)),
      (''_log_params'', Method False (Native noop)),
      (''_log_model'', Method False (Native noop))]"


definition FailingHybrid :: "journal pyclass" where
  "FailingHybrid = class_stmt ''FailingHybrid'' [HybridComponent]
     [(''_call_on_experiment'', Method False (Native failing_hook)),
      (''_call_on_run'', Method False (Native (journal_hook ''run'')))]"


section \<open>The classes as Python creates them\<close>

text \<open>
  The five class statements of \<open>base.py\<close> succeed, and the class objects they bind are
  these: in particular the \<open>__mro__\<close> of \<open>HybridComponent\<close> is HybridComponent,
  ExperimentComponent, RunComponent, Component, object; the \<open>__abstractmethods__\<close> of
  \<open>Logger\<close> are its five logging methods and \<open>__init__\<close>; and \<open>Component.__call__\<close>,
  overridden in the other four classes, is abstract in \<open>Component\<close> only.
\<close>

lemmas class_creation =
  class_stmt_def ABCMeta_new_def abstractmethods_def is_abstract_def c3_merge.simps
  c3_candidate_def c3_remove_def cls_entry_def

lemma Component_eq:
  "(Component :: 'u pyclass) =
     \<lparr>cls_name = ''Component'',
      cls_dict = [(''__call__'', Method True (Src M_Component_call))],
      cls_mro = [(''Component'', [(''__call__'', Method True (Src M_Component_call))]),
                 (''object'', [])],
      cls_abstractmethods = [''__call__'']\<rparr>"
  by (simp add: Component_def class_creation object_cls_def)

lemma ExperimentComponent_eq:
  "(ExperimentComponent :: 'u pyclass) =
     \<lparr>cls_name = ''ExperimentComponent'',
      cls_dict = [(''__call__'', Method False (Src M_ExperimentComponent_call)),
                  (''_call_on_experiment'', Method True (Src M_ExperimentComponent_call_on_experiment))],
      cls_mro = [(''ExperimentComponent'',
                    [(''__call__'', Method False (Src M_ExperimentComponent_call)),
                     (''_call_on_experiment'', Method True (Src M_ExperimentComponent_call_on_experiment))]),
                 (''Component'', [(''__call__'', Method True (Src M_Component_call))]),
                 (''object'', [])],
      cls_abstractmethods = [''_call_on_experiment'']\<rparr>"
  by (simp add: ExperimentComponent_def class_creation Component_eq)

lemma RunComponent_eq:
  "(RunComponent :: 'u pyclass) =
     \<lparr>cls_name = ''RunComponent'',
      cls_dict = [(''__call__'', Method False (Src M_RunComponent_call)),
                  (''_call_on_run'', Method True (Src M_RunComponent_call_on_run))],
      cls_mro = [(''RunComponent'',
                    [(''__call__'', Method False (Src M_RunComponent_call)),
                     (''_call_on_run'', Method True (Src M_RunComponent_call_on_run))]),
                 (''Component'', [(''__call__'', Method True (Src M_Component_call))]),
                 (''object'', [])],
      cls_abstractmethods = [''_call_on_run'']\<rparr>"
  by (simp add: RunComponent_def class_creation Component_eq)

lemma HybridComponent_eq:
  "(HybridComponent :: 'u pyclass) =
     \<lparr>cls_name = ''HybridComponent'',
      cls_dict = [(''__call__'', Method False (Src M_HybridComponent_call))],
      cls_mro = [(''HybridComponent'', [(''__call__'', Method False (Src M_HybridComponent_call))]),
                 (''ExperimentComponent'',
                    [(''__call__'', Method False (Src M_ExperimentComponent_call)),
                     (''_call_on_experiment'', Method True (Src M_ExperimentComponent_call_on_experiment))]),
                 (''RunComponent'',
                    [(''__call__'', Method False (Src M_RunComponent_call)),
                     (''_call_on_run'', Method True (Src M_RunComponent_call_on_run))]),
                 (''Component'', [(''__call__'', Method True (Src M_Component_call))]),
                 (''object'', [])],
      cls_abstractmethods = [''_call_on_experiment'', ''_call_on_run'']\<rparr>"
  by (simp add: HybridComponent_def class_creation ExperimentComponent_eq RunComponent_eq)

lemma Logger_eq:
  "(Logger :: 'u pyclass) =
     \<lparr>cls_name = ''Logger'',
      cls_dict = [(''__init__'', Method True (Src M_Logger_init)),
                  (''__call__'', Method False (Src M_Logger_call)),
                  (''log_experiment'', Method True (Src M_Logger_log_experiment)),
                  (''log_run'', Method True (Src M_Logger_log_run)),
                  (''_log_metrics'', Method True (Src M_Logger_log_metrics)),
                  (''_log_params'', Method True (Src M_Logger_log_params)),
                  (''_log_model'', Method True (Src M_Logger_log_model))],
      cls_mro = [(''Logger'',
                    [(''__init__'', Method True (Src M_Logger_init)),
                     (''__call__'', Method False (Src M_Logger_call)),
                     (''log_experiment'', Method True (Src M_Logger_log_experiment)),
                     (''log_run'', Method True (Src M_Logger_log_run)),
                     (''_log_metrics'', Method True (Src M_Logger_log_metrics)),
                     (''_log_params'', Method True (Src M_Logger_log_params)),
                     (''_log_model'', Method True (Src M_Logger_log_model))]),
                 (''Component'', [(''__call__'', Method True (Src M_Component_call))]),
                 (''object'', [])],
      cls_abstractmethods = [''__init__'', ''log_experiment'', ''log_run'', ''_log_metrics'',
                             ''_log_params'', ''_log_model'']\<rparr>"
  by (simp add: Logger_def class_creation Component_eq)

lemma Component_created:
  "ABCMeta_new ''Component'' [object_cls]
     [(''__call__'', Method True (Src M_Component_call))] = Inr (Component :: 'u pyclass)"
  by (simp add: Component_def class_creation object_cls_def)

lemma ExperimentComponent_created:
  "ABCMeta_new ''ExperimentComponent'' [Component]
     [(''__call__'', Method False (Src M_ExperimentComponent_call)),
      (''_call_on_experiment'', Method True (Src M_ExperimentComponent_call_on_experiment))] =
   Inr (ExperimentComponent :: 'u pyclass)"
  by (simp add: ExperimentComponent_def class_creation Component_eq)

lemma RunComponent_created:
  "ABCMeta_new ''RunComponent'' [Component]
     [(''__call__'', Method False (Src M_RunComponent_call)),
      (''_call_on_run'', Method True (Src M_RunComponent_call_on_run))] =
   Inr (RunComponent :: 'u pyclass)"
  by (simp add: RunComponent_def class_creation Component_eq)

lemma HybridComponent_created:
  "ABCMeta_new ''HybridComponent'' [ExperimentComponent, RunComponent]
     [(''__call__'', Method False (Src M_HybridComponent_call))] =
   Inr (HybridComponent :: 'u pyclass)"
  by (simp add: HybridComponent_def class_creation ExperimentComponent_eq RunComponent_eq)

lemma Logger_created:
  "ABCMeta_new ''Logger'' [Component]
     [(''__init__'', Method True (Src M_Logger_init)),
      (''__call__'', Method False (Src M_Logger_call)),
      (''log_experiment'', Method True (Src M_Logger_log_experiment)),
      (''log_run'', Method True (Src M_Logger_log_run)),
      (''_log_metrics'', Method True (Src M_Logger_log_metrics)),
      (''_log_params'', Method True (Src M_Logger_log_params)),
      (''_log_model'', Method True (Src M_Logger_log_model))] = Inr (Logger :: 'u pyclass)"
  by (simp add: Logger_def class_creation Component_eq)

text \<open>The example classes.\<close>

lemma ExperimentRecorder_eq:
  "ExperimentRecorder =
     \<lparr>cls_name = ''ExperimentRecorder'',
      cls_dict = [(''_call_on_experiment'', Method False (Native (journal_hook ''experiment'')))],
      cls_mro = (''ExperimentRecorder'',
                   [(''_call_on_experiment'', Method False (Native (journal_hook ''experiment'')))])
                # cls_mro ExperimentComponent,
      cls_abstractmethods = []\<rparr>"
  by (simp add: ExperimentRecorder_def class_creation ExperimentComponent_eq)

lemma FailingRecorder_eq:
  "FailingRecorder =
     \<lparr>cls_name = ''FailingRecorder'',
      cls_dict = [(''_call_on_experiment'', Method False (Native failing_hook))],
      cls_mro = (''FailingRecorder'', [(''_call_on_experiment'', Method False (Native failing_hook))])
                # cls_mro ExperimentComponent,
      cls_abstractmethods = []\<rparr>"
  by (simp add: FailingRecorder_def class_creation ExperimentComponent_eq)

lemma RunRecorder_eq:
  "RunRecorder =
     \<lparr>cls_name = ''RunRecorder'',
      cls_dict = [(''_call_on_run'', Method False (Native (journal_hook ''run'')))],
      cls_mro = (''RunRecorder'', [(''_call_on_run'', Method False (Native (journal_hook ''run'')))])
                # cls_mro RunComponent,
      cls_abstractmethods = []\<rparr>"
  by (simp add: RunRecorder_def class_creation RunComponent_eq)

lemma HybridRecorder_eq:
  "HybridRecorder =
     \<lparr>cls_name = ''HybridRecorder'',
      cls_dict = [(''_call_on_experiment'', Method False (Native (journal_hook ''experiment''))),
                  (''_call_on_run'', Method False (Native (journal_hook ''run'')))],
      cls_mro = (''HybridRecorder'',
                   [(''_call_on_experiment'', Method False (Native (journal_hook ''experiment''))),
                    (''_call_on_run'', Method False (Native (journal_hook ''run'')))])
                # cls_mro HybridComponent,
      cls_abstractmethods = []\<rparr>"
  by (simp add: HybridRecorder_def class_creation HybridComponent_eq)

lemma RecordingLogger_eq:
  "RecordingLogger =
     \<lparr>cls_name = ''RecordingLogger'',
      cls_dict = [(''__init__'', Method False (Native noop)),
                  (''log_experiment'', Method False (Native (journal_hook ''experiment''))),
                  (''log_run'', Method False (Native (journal_hook ''run''))),
                  (''_log_metrics'', Method False (Native (journal_hook ''metrics''))),
                  (''_log_params'', Method False (Native (journal_hook ''params''))),
                  (''_log_model'', Method False (Native (journal_hook ''model'')))],
      cls_mro = (''RecordingLogger'',
                   [(''__init__'', Method False (Native noop)),
                    (''log_experiment'', Method False (Native (journal_hook ''experiment''))),
                    (''log_run'', Method False (Native (journal_hook ''run''))),
                    (''_log_metrics'', Method False (Native (journal_hook ''metrics''))),
                    (''_log_params'', Method False (Native (journal_hook ''params''))),
                    (''_log_model'', Method False (Native (journal_hook ''model'')))])
                # cls_mro Logger,
      cls_abstractmethods = []\<rparr>"
  by (simp add: RecordingLogger_def class_creation Logger_eq)

lemma SilentLogger_eq:
  "SilentLogger =
     \<lparr>cls_name = ''SilentLogger'',
      cls_dict = [(''__init__'', Method False (Native noop)),
                  (''log_experiment'', Method False (Native (journal_hook ''experiment''))),
                  (''log_run'', Method False (Native (journal_hook ''run''))),
                  (''_log_metrics'', Method False (Native failing_hook)),
                  (''_log_params'', Method False (Native failing_hook)),
                  (''_log_model'', Method False (Native failing_hook))],
      cls_mro = (''SilentLogger'',
                   [(''__init__'', Method False (Native noop)),
                    (''log_experiment'', Method False (Native (journal_hook ''experiment''))),
                    (''log_run'', Method False (Native (journal_hook ''run''))),
                    (''_log_metrics'', Method False (Native failing_hook)),
                    (''_log_params'', Method False (Native failing_hook)),
                    (''_log_model'', Method False (Native failing_hook))])
                # cls_mro Logger,
      cls_abstractmethods = []\<rparr>"
  by (simp add: SilentLogger_def class_creation Logger_eq)

lemma NullLogger5_eq:
  "NullLogger5 =
     \<lparr>cls_name = ''NullLogger'',
      cls_dict = [(''log_experiment'', Method False (Native noop)),
                  (''log_run'', Method False (Native noop)),
                  (''_log_metrics'', Method False (Native noop)),
                  (''_log_params'', Method False (Native noop)),
                  (''_log_model'', Method False (Native noop))],
      cls_mro = (''NullLogger'',
                   [(''log_experiment'', Method False (Native noop)),
                    (''log_run'', Method False (Native noop)),
                    (''_log_metrics'', Method False (Native noop)),
                    (''_log_params'', Method False (Native noop)),
                    (''_log_model'', Method False (Native noop))])
                # cls_mro Logger,
      cls_abstractmethods = [''__init__'']\<rparr>"
  by (simp add: NullLogger5_def class_creation Logger_eq)

lemma NullLogger_eq:
  "NullLogger =
     \<lparr>cls_name = ''NullLogger'',
      cls_dict = [(''__init__'', Method False (Native noop)),
                  (''log_experiment'', Method False (Native noop)),
                  (''log_run'', Method False (Native noop)),
                  (''_log_metrics'', Method False (Native noop)),
                  (''_log_params'', Method False (Native noop)),
                  (''_log_model'', Method False (Native noop))],
      cls_mro = (''NullLogger'',
                   [(''__init__'', Method False (Native noop)),
                    (''log_experiment'', Method False (Native noop)),
                    (''log_run'', Method False (Native noop)),
                    (''_log_metrics'', Method False (Native noop)),
                    (''_log_params'', Method False (Native noop)),
                    (''_log_model'', Method False (Native noop))])
                # cls_mro Logger,
      cls_abstractmethods = []\<rparr>"
  by (simp add: NullLogger_def class_creation Logger_eq)

lemma FailingHybrid_eq:
  "FailingHybrid =
     \<lparr>cls_name = ''FailingHybrid'',
      cls_dict = [(''_call_on_experiment'', Method False (Native failing_hook)),
                  (''_call_on_run'', Method False (Native (journal_hook ''run'')))],
      cls_mro = (''FailingHybrid'',
                   [(''_call_on_experiment'', Method False (Native failing_hook)),
                    (''_call_on_run'', Method False (Native (journal_hook ''run'')))])
                # cls_mro HybridComponent,
      cls_abstractmethods = []\<rparr>"
  by (simp add: FailingHybrid_def class_creation HybridComponent_eq)








lemmas example_values = isinstance_def Experiment_def Run_def an_experiment_def a_run_def a_both_def

section \<open>What a call does\<close>

text \<open>
  The call \<open>c(x)\<close> of an instance of a class that inherits one of the four \<open>__call__\<close>
  bodies and implements the methods that body calls, with two frames or more left.
\<close>

lemma world_updated [simp]:
  "(w :: 'u world)\<lparr>calls := cs, heap := u\<rparr> = \<lparr>calls = cs, heap = u\<rparr>"
  by (cases w) simp

lemma with_param_positional: "with_param p (Args [x] []) k w = k x w"
  by (simp add: with_param_def bind_params_def)

lemma new_calls_hook_outcome [simp]:
  "new_calls w (hook_outcome h self name x w) = [Call self name (Args [x] [])]"
  by (simp add: new_calls_def hook_outcome_def split: prod.splits)

lemma new_calls_expr_stmt [simp]: "new_calls w (expr_stmt out) = new_calls w out"
  by (simp add: new_calls_def expr_stmt_def split: prod.splits sum.splits)

lemma new_calls_same [simp]: "new_calls w (r, w) = []"
  by (simp add: new_calls_def)

lemma invoke_ExperimentComponent:
  assumes "getattr_cls c ''__call__'' = Some (Method False (Src M_ExperimentComponent_call))"
      and "getattr_cls c ''_call_on_experiment'' = Some (Method False (Native hook))"
  shows "invoke (Suc (Suc d)) c self (Args [e] []) w =
           hook_outcome hook self ''_call_on_experiment'' e w"
  using assms
  by (simp add: invoke_def with_param_positional ExperimentComponent_call_def call_method_def
      run_native_def hook_outcome_def split: prod.splits)

lemma invoke_RunComponent:
  assumes "getattr_cls c ''__call__'' = Some (Method False (Src M_RunComponent_call))"
      and "getattr_cls c ''_call_on_run'' = Some (Method False (Native hook))"
  shows "invoke (Suc (Suc d)) c self (Args [r] []) w = hook_outcome hook self ''_call_on_run'' r w"
  using assms
  by (simp add: invoke_def with_param_positional RunComponent_call_def call_method_def
      run_native_def hook_outcome_def split: prod.splits)

lemma invoke_HybridComponent:
  assumes "getattr_cls c ''__call__'' = Some (Method False (Src M_HybridComponent_call))"
      and "getattr_cls c ''_call_on_experiment'' = Some (Method False (Native on_experiment))"
      and "getattr_cls c ''_call_on_run'' = Some (Method False (Native on_run))"
  shows "invoke (Suc (Suc d)) c self (Args [x] []) w =
           (if isinstance x Experiment
            then hook_outcome on_experiment self ''_call_on_experiment'' x w
            else if isinstance x Run then hook_outcome on_run self ''_call_on_run'' x w
            else (Inr PyNone, w))"
  using assms
  by (simp add: invoke_def with_param_positional HybridComponent_call_def call_method_def
      run_native_def hook_outcome_def split: prod.splits)

lemma invoke_HybridComponent_Experiment:
  assumes "getattr_cls c ''__call__'' = Some (Method False (Src M_HybridComponent_call))"
      and "getattr_cls c ''_call_on_experiment'' = Some (Method False (Native on_experiment))"
      and "isinstance x Experiment"
  shows "invoke (Suc (Suc d)) c self (Args [x] []) w =
           hook_outcome on_experiment self ''_call_on_experiment'' x w"
  using assms
  by (simp add: invoke_def with_param_positional HybridComponent_call_def call_method_def
      run_native_def hook_outcome_def split: prod.splits)

lemma invoke_HybridComponent_Run:
  assumes "getattr_cls c ''__call__'' = Some (Method False (Src M_HybridComponent_call))"
      and "getattr_cls c ''_call_on_run'' = Some (Method False (Native on_run))"
      and "\<not> isinstance x Experiment" and "isinstance x Run"
  shows "invoke (Suc (Suc d)) c self (Args [x] []) w = hook_outcome on_run self ''_call_on_run'' x w"
  using assms
  by (simp add: invoke_def with_param_positional HybridComponent_call_def call_method_def
      run_native_def hook_outcome_def split: prod.splits)

lemma invoke_Logger:
  assumes "getattr_cls c ''__call__'' = Some (Method False (Src M_Logger_call))"
      and "getattr_cls c ''log_experiment'' = Some (Method False (Native log_experiment))"
      and "getattr_cls c ''log_run'' = Some (Method False (Native log_run))"
  shows "invoke (Suc (Suc d)) c self (Args [x] []) w =
           (if isinstance x Experiment
            then expr_stmt (hook_outcome log_experiment self ''log_experiment'' x w)
            else if isinstance x Run then expr_stmt (hook_outcome log_run self ''log_run'' x w)
            else (Inr PyNone, w))"
  using assms
  by (simp add: invoke_def with_param_positional Logger_call_def call_method_def
      run_native_def hook_outcome_def split: prod.splits)

text \<open>The log of a call of a logger, whatever the arguments and the frames left.\<close>

lemma exec_Native_calls: "calls (snd (exec d c self (Native h) args w)) = calls w"
  by (cases d) (simp_all add: run_native_def split: prod.splits)

lemma exec_Native_same_class: "exec d c' self (Native h) args w = exec d c self (Native h) args w"
  by (cases d) simp_all

lemma calls_expr_stmt: "calls (snd (expr_stmt out)) = calls (snd out)"
  by (simp add: expr_stmt_def split: prod.splits sum.splits)

lemma Logger_call_log:
  assumes "getattr_cls c ''log_experiment'' = Some (Method False (Native log_experiment))"
      and "getattr_cls c ''log_run'' = Some (Method False (Native log_run))"
  shows "calls (snd (Logger_call (call_method (exec d c self) c self) x w)) =
           calls w @ (if isinstance x Experiment then [Call self ''log_experiment'' (Args [x] [])]
                      else if isinstance x Run then [Call self ''log_run'' (Args [x] [])]
                      else [])"
  using assms
  by (simp add: Logger_call_def call_method_def calls_expr_stmt exec_Native_calls)

lemma invoke_Logger_log:
  assumes "getattr_cls c ''__call__'' = Some (Method False (Src M_Logger_call))"
      and "getattr_cls c ''log_experiment'' = Some (Method False (Native log_experiment))"
      and "getattr_cls c ''log_run'' = Some (Method False (Native log_run))"
  shows "\<exists>new. calls (snd (invoke depth c self args w)) = calls w @ new
           \<and> set (map callee new) \<subseteq> {''log_experiment'', ''log_run''}"
proof (cases depth)
  case 0
  then show ?thesis using assms by (simp add: invoke_def)
next
  case (Suc d)
  show ?thesis
  proof (cases "bind_params [''obj''] False args")
    case (Inl e)
    then show ?thesis using assms Suc by (simp add: invoke_def with_param_def)
  next
    case (Inr vs)
    show ?thesis
    proof (cases "\<exists>v. vs = [v]")
      case True
      then obtain v where "vs = [v]" by blast
      then have "invoke depth c self args w = Logger_call (call_method (exec d c self) c self) v w"
        using assms(1) Suc Inr by (simp add: invoke_def with_param_def)
      then show ?thesis
        using Logger_call_log [OF assms(2,3), of d self v w] by auto
    next
      case False
      then have "invoke depth c self args w = (Inl (TypeError ''missing required argument''), w)"
        using assms(1) Suc Inr by (auto simp: invoke_def with_param_def split: list.splits)
      then show ?thesis by simp
    qed
  qed
qed

lemma invoke_Logger_same_hooks:
  assumes "getattr_cls c ''__call__'' = Some (Method False (Src M_Logger_call))"
      and "getattr_cls c ''log_experiment'' = Some (Method False (Native log_experiment))"
      and "getattr_cls c ''log_run'' = Some (Method False (Native log_run))"
      and "getattr_cls c' ''__call__'' = Some (Method False (Src M_Logger_call))"
      and "getattr_cls c' ''log_experiment'' = Some (Method False (Native log_experiment))"
      and "getattr_cls c' ''log_run'' = Some (Method False (Native log_run))"
  shows "invoke depth c' self args w = invoke depth c self args w"
proof (cases depth)
  case 0
  then show ?thesis using assms by (simp add: invoke_def)
next
  case (Suc d)
  have "Logger_call (call_method (exec d c' self) c' self) v w =
        Logger_call (call_method (exec d c self) c self) v w" for v
    using assms by (simp add: Logger_call_def call_method_def exec_Native_same_class [of d c' _ _ _ _ c])
  then show ?thesis
    using assms Suc by (simp add: invoke_def with_param_def split: sum.splits list.splits)
qed








lemma NullLogger_constructed:
  "instantiate (Suc d) NullLogger addr [] w = (Inr (new_object NullLogger addr), w)"
  by (simp add: instantiate_def object_new_def run_init_def getattr_cls_def NullLogger_eq Logger_eq
      run_native_def noop_def)

lemma NullLogger5_not_constructed:
  "instantiate depth NullLogger5 addr kwargs w = (Inl (abstract_class_error NullLogger5), w)"
  by (simp add: instantiate_def object_new_def has_init_def getattr_cls_def NullLogger5_eq Logger_eq)

section \<open>The claims\<close>

text \<open>
  In the statements, a class \<open>c\<close> is a concrete subtype of one of the classes of
  \<open>base.py\<close> when looking \<open>__call__\<close> up on \<open>c\<close> finds the body written in that class
  and looking a hook up finds a method that is not abstract, written by the implementer
  (a \<open>Native\<close> function, arbitrary).  The call \<open>c(x)\<close> is
  \<open>invoke (Suc (Suc d)) c self (Args [x] []) w\<close>: \<open>self\<close> is the instance, \<open>w\<close> the world
  before the call, and the interpreter has two frames or more left, one for \<open>__call__\<close>
  and one for the hook (with fewer, a call that reaches the hook raises
  \<open>RecursionError\<close>).
\<close>

text \<open>
  C1.  For every concrete subtype of \<open>HybridComponent\<close> and every object \<open>x\<close>: when \<open>x\<close>
  is an Experiment the call is exactly one call of \<open>_call_on_experiment\<close> on \<open>x\<close>; when
  \<open>x\<close> is not an Experiment and is a Run it is exactly one call of \<open>_call_on_run\<close> on
  \<open>x\<close>; when \<open>x\<close> is neither it calls no hook and returns \<open>None\<close>, raising nothing, with
  the world as it was.  So \<open>_call_on_experiment\<close> is called only when \<open>x\<close> is an
  Experiment, and \<open>_call_on_run\<close> only when \<open>x\<close> is a Run (the last two conjuncts).
\<close>

theorem HybridComponent_call_dispatches:
  assumes "getattr_cls c ''__call__'' = Some (Method False (Src M_HybridComponent_call))"
      and "getattr_cls c ''_call_on_experiment'' = Some (Method False (Native on_experiment))"
      and "getattr_cls c ''_call_on_run'' = Some (Method False (Native on_run))"
  shows "invoke (Suc (Suc d)) c self (Args [x] []) w =
           (if isinstance x Experiment
            then hook_outcome on_experiment self ''_call_on_experiment'' x w
            else if isinstance x Run then hook_outcome on_run self ''_call_on_run'' x w
            else (Inr PyNone, w))
         \<and> (''_call_on_experiment''
               \<in> set (map callee (new_calls w (invoke (Suc (Suc d)) c self (Args [x] []) w)))
             \<longrightarrow> isinstance x Experiment)
         \<and> (''_call_on_run''
               \<in> set (map callee (new_calls w (invoke (Suc (Suc d)) c self (Args [x] []) w)))
             \<longrightarrow> isinstance x Run)"
  by (simp add: invoke_HybridComponent [OF assms])

theorem HybridComponent_call_dispatches_witness:
  "getattr_cls HybridRecorder ''__call__'' = Some (Method False (Src M_HybridComponent_call))
   \<and> getattr_cls HybridRecorder ''_call_on_experiment'' =
       Some (Method False (Native (journal_hook ''experiment'')))
   \<and> getattr_cls HybridRecorder ''_call_on_run'' = Some (Method False (Native (journal_hook ''run'')))
   \<and> invoke (Suc (Suc 0)) HybridRecorder 1 (Args [an_experiment] []) w0 =
       (Inr (PyInt 0),
        \<lparr>calls = [Call 1 ''_call_on_experiment'' (Args [an_experiment] [])],
         heap = [(''experiment'', Args [an_experiment] [])]\<rparr>)
   \<and> invoke (Suc (Suc 0)) HybridRecorder 1 (Args [a_run] []) w0 =
       (Inr (PyInt 0),
        \<lparr>calls = [Call 1 ''_call_on_run'' (Args [a_run] [])],
         heap = [(''run'', Args [a_run] [])]\<rparr>)
   \<and> invoke (Suc (Suc 0)) HybridRecorder 1 (Args [PyInt 3] []) w0 = (Inr PyNone, w0)"
  using HybridComponent_call_dispatches
          [of HybridRecorder "journal_hook ''experiment''" "journal_hook ''run''" 0 1 an_experiment w0]
        HybridComponent_call_dispatches
          [of HybridRecorder "journal_hook ''experiment''" "journal_hook ''run''" 0 1 a_run w0]
        HybridComponent_call_dispatches
          [of HybridRecorder "journal_hook ''experiment''" "journal_hook ''run''" 0 1 "PyInt 3" w0]
  by (simp add: getattr_cls_def HybridRecorder_eq HybridComponent_eq hook_outcome_def
      journal_hook_def w0_def example_values)

text \<open>
  C2, as stated, fails.  An object whose class derives from both \<open>Experiment\<close> and \<open>Run\<close>
  is a Run; called on it, a concrete logger calls \<open>log_experiment\<close> and does not call
  \<open>log_run\<close>, because \<open>Logger.__call__\<close> tests \<open>isinstance(obj, Experiment)\<close> first and
  tests \<open>isinstance(obj, Run)\<close> under \<open>elif\<close>.
\<close>

theorem Logger_call_on_a_Run_counterexample:
  "cls_abstractmethods RecordingLogger = []
   \<and> isinstance a_both Run
   \<and> map callee (new_calls w0 (invoke (Suc (Suc 0)) RecordingLogger 1 (Args [a_both] []) w0)) =
       [''log_experiment'']"
  by (simp add: invoke_Logger [where log_experiment = "journal_hook ''experiment''"
        and log_run = "journal_hook ''run''"]
      getattr_cls_def RecordingLogger_eq Logger_eq example_values)

text \<open>
  C2, amended.  For every concrete subtype of \<open>Logger\<close> and every object \<open>x\<close>: when \<open>x\<close>
  is an Experiment the call is exactly one call of \<open>log_experiment\<close> on \<open>x\<close> and nothing
  else; when \<open>x\<close> is a Run and not an Experiment it is exactly one call of \<open>log_run\<close> on
  \<open>x\<close> and nothing else; when \<open>x\<close> is neither it calls neither method and raises
  nothing.  (The value of the method called is dropped: the call returns \<open>None\<close> unless
  the method raises, which is what \<open>expr_stmt\<close> says.)
\<close>

theorem Logger_call_dispatches:
  assumes "getattr_cls c ''__call__'' = Some (Method False (Src M_Logger_call))"
      and "getattr_cls c ''log_experiment'' = Some (Method False (Native log_experiment))"
      and "getattr_cls c ''log_run'' = Some (Method False (Native log_run))"
  shows "invoke (Suc (Suc d)) c self (Args [x] []) w =
           (if isinstance x Experiment
            then expr_stmt (hook_outcome log_experiment self ''log_experiment'' x w)
            else if isinstance x Run then expr_stmt (hook_outcome log_run self ''log_run'' x w)
            else (Inr PyNone, w))"
  using assms
  by (simp add: invoke_def with_param_positional Logger_call_def call_method_def
      run_native_def hook_outcome_def split: prod.splits)

theorem Logger_call_dispatches_witness:
  "getattr_cls RecordingLogger ''__call__'' = Some (Method False (Src M_Logger_call))
   \<and> getattr_cls RecordingLogger ''log_experiment'' =
       Some (Method False (Native (journal_hook ''experiment'')))
   \<and> getattr_cls RecordingLogger ''log_run'' = Some (Method False (Native (journal_hook ''run'')))
   \<and> invoke (Suc (Suc 0)) RecordingLogger 1 (Args [an_experiment] []) w0 =
       (Inr PyNone,
        \<lparr>calls = [Call 1 ''log_experiment'' (Args [an_experiment] [])],
         heap = [(''experiment'', Args [an_experiment] [])]\<rparr>)
   \<and> invoke (Suc (Suc 0)) RecordingLogger 1 (Args [a_run] []) w0 =
       (Inr PyNone,
        \<lparr>calls = [Call 1 ''log_run'' (Args [a_run] [])],
         heap = [(''run'', Args [a_run] [])]\<rparr>)
   \<and> invoke (Suc (Suc 0)) RecordingLogger 1 (Args [PyInt 3] []) w0 = (Inr PyNone, w0)"
  using Logger_call_dispatches
          [of RecordingLogger "journal_hook ''experiment''" "journal_hook ''run''" 0 1 an_experiment w0]
        Logger_call_dispatches
          [of RecordingLogger "journal_hook ''experiment''" "journal_hook ''run''" 0 1 a_run w0]
        Logger_call_dispatches
          [of RecordingLogger "journal_hook ''experiment''" "journal_hook ''run''" 0 1 "PyInt 3" w0]
  by (simp add: getattr_cls_def RecordingLogger_eq Logger_eq hook_outcome_def expr_stmt_def
      journal_hook_def w0_def example_values)

text \<open>
  C3, as stated, fails.  \<open>HybridComponent\<close> derives from \<open>ExperimentComponent\<close>, so a
  concrete subtype of \<open>HybridComponent\<close> is a concrete subtype of
  \<open>ExperimentComponent\<close>; its \<open>__call__\<close> delegates to \<open>_call_on_experiment\<close> behind the
  test \<open>isinstance(object, Experiment)\<close>, not unconditionally: called on \<open>3\<close> it calls
  no hook.
\<close>

theorem ExperimentComponent_call_guarded_counterexample:
  "''ExperimentComponent'' \<in> set (map fst (cls_mro HybridRecorder))
   \<and> cls_abstractmethods HybridRecorder = []
   \<and> getattr_cls HybridRecorder ''_call_on_experiment'' =
       Some (Method False (Native (journal_hook ''experiment'')))
   \<and> invoke (Suc (Suc 0)) HybridRecorder 1 (Args [PyInt 3] []) w0 = (Inr PyNone, w0)"
  by (simp add: invoke_HybridComponent [where on_experiment = "journal_hook ''experiment''"
        and on_run = "journal_hook ''run''"]
      getattr_cls_def HybridRecorder_eq HybridComponent_eq example_values)

text \<open>
  C3, amended.  Let \<open>c\<close> be a concrete subtype of \<open>ExperimentComponent\<close> whose \<open>__call__\<close>
  is the one written in \<open>ExperimentComponent\<close> or the one written in
  \<open>HybridComponent\<close>.  For every Experiment \<open>e\<close>, the call on \<open>e\<close> is exactly one call of
  \<open>_call_on_experiment\<close>, with \<open>e\<close> itself as its only argument, and its result is the
  result of the call.  Under \<open>ExperimentComponent.__call__\<close> the delegation is
  unconditional: the equation holds for every \<open>e\<close>, an Experiment or not.  Under
  \<open>HybridComponent.__call__\<close> it follows the test that \<open>e\<close> is an Experiment.
\<close>

theorem ExperimentComponent_call_delegates:
  assumes "getattr_cls c ''__call__'' = Some (Method False (Src m))"
      and "getattr_cls c ''_call_on_experiment'' = Some (Method False (Native hook))"
      and "m = M_ExperimentComponent_call \<or> (m = M_HybridComponent_call \<and> isinstance e Experiment)"
  shows "invoke (Suc (Suc d)) c self (Args [e] []) w =
           hook_outcome hook self ''_call_on_experiment'' e w"
  using assms invoke_ExperimentComponent [of c hook d self e w]
    invoke_HybridComponent_Experiment [of c hook e d self w]
  by auto

theorem ExperimentComponent_call_delegates_witness:
  "getattr_cls ExperimentRecorder ''__call__'' = Some (Method False (Src M_ExperimentComponent_call))
   \<and> getattr_cls ExperimentRecorder ''_call_on_experiment'' =
       Some (Method False (Native (journal_hook ''experiment'')))
   \<and> invoke (Suc (Suc 0)) ExperimentRecorder 1 (Args [an_experiment] []) w0 =
       (Inr (PyInt 0),
        \<lparr>calls = [Call 1 ''_call_on_experiment'' (Args [an_experiment] [])],
         heap = [(''experiment'', Args [an_experiment] [])]\<rparr>)
   \<and> invoke (Suc (Suc 0)) ExperimentRecorder 1 (Args [PyInt 3] []) w0 =
       (Inr (PyInt 0),
        \<lparr>calls = [Call 1 ''_call_on_experiment'' (Args [PyInt 3] [])],
         heap = [(''experiment'', Args [PyInt 3] [])]\<rparr>)
   \<and> getattr_cls HybridRecorder ''__call__'' = Some (Method False (Src M_HybridComponent_call))
   \<and> getattr_cls HybridRecorder ''_call_on_experiment'' =
       Some (Method False (Native (journal_hook ''experiment'')))
   \<and> isinstance an_experiment Experiment
   \<and> invoke (Suc (Suc 0)) HybridRecorder 1 (Args [an_experiment] []) w0 =
       (Inr (PyInt 0),
        \<lparr>calls = [Call 1 ''_call_on_experiment'' (Args [an_experiment] [])],
         heap = [(''experiment'', Args [an_experiment] [])]\<rparr>)"
  using ExperimentComponent_call_delegates
          [of ExperimentRecorder M_ExperimentComponent_call "journal_hook ''experiment''"
              an_experiment 0 1 w0]
        ExperimentComponent_call_delegates
          [of ExperimentRecorder M_ExperimentComponent_call "journal_hook ''experiment''"
              "PyInt 3" 0 1 w0]
        ExperimentComponent_call_delegates
          [of HybridRecorder M_HybridComponent_call "journal_hook ''experiment''"
              an_experiment 0 1 w0]
  by (simp add: getattr_cls_def ExperimentRecorder_eq HybridRecorder_eq HybridComponent_eq
      ExperimentComponent_eq hook_outcome_def journal_hook_def w0_def example_values)

text \<open>
  C4, as stated, fails.  A concrete subtype of \<open>HybridComponent\<close> is a concrete subtype of
  \<open>RunComponent\<close>; called on a Run that is also an Experiment, it calls
  \<open>_call_on_experiment\<close> and never \<open>_call_on_run\<close>.
\<close>

theorem RunComponent_call_on_a_Run_counterexample:
  "''RunComponent'' \<in> set (map fst (cls_mro HybridRecorder))
   \<and> cls_abstractmethods HybridRecorder = []
   \<and> isinstance a_both Run
   \<and> new_calls w0 (invoke (Suc (Suc 0)) HybridRecorder 1 (Args [a_both] []) w0) =
       [Call 1 ''_call_on_experiment'' (Args [a_both] [])]"
  by (simp add: invoke_HybridComponent [where on_experiment = "journal_hook ''experiment''"
        and on_run = "journal_hook ''run''"]
      getattr_cls_def HybridRecorder_eq HybridComponent_eq example_values)

text \<open>
  C4, amended.  Let \<open>c\<close> be a concrete subtype of \<open>RunComponent\<close> whose \<open>__call__\<close> is the
  one written in \<open>RunComponent\<close> or the one written in \<open>HybridComponent\<close>.  Under
  \<open>RunComponent.__call__\<close>, for every Run \<open>r\<close> (indeed for every \<open>r\<close>), and under
  \<open>HybridComponent.__call__\<close>, for every Run \<open>r\<close> that is not also an Experiment, the call
  on \<open>r\<close> is exactly one call of \<open>_call_on_run\<close>, with \<open>r\<close> itself as its only argument.
\<close>

theorem RunComponent_call_delegates:
  assumes "getattr_cls c ''__call__'' = Some (Method False (Src m))"
      and "getattr_cls c ''_call_on_run'' = Some (Method False (Native hook))"
      and "m = M_RunComponent_call
           \<or> (m = M_HybridComponent_call \<and> isinstance r Run \<and> \<not> isinstance r Experiment)"
  shows "invoke (Suc (Suc d)) c self (Args [r] []) w = hook_outcome hook self ''_call_on_run'' r w"
  using assms invoke_RunComponent [of c hook d self r w]
    invoke_HybridComponent_Run [of c hook r d self w]
  by auto

theorem RunComponent_call_delegates_witness:
  "getattr_cls RunRecorder ''__call__'' = Some (Method False (Src M_RunComponent_call))
   \<and> getattr_cls RunRecorder ''_call_on_run'' = Some (Method False (Native (journal_hook ''run'')))
   \<and> invoke (Suc (Suc 0)) RunRecorder 1 (Args [a_run] []) w0 =
       (Inr (PyInt 0),
        \<lparr>calls = [Call 1 ''_call_on_run'' (Args [a_run] [])],
         heap = [(''run'', Args [a_run] [])]\<rparr>)
   \<and> getattr_cls HybridRecorder ''__call__'' = Some (Method False (Src M_HybridComponent_call))
   \<and> getattr_cls HybridRecorder ''_call_on_run'' = Some (Method False (Native (journal_hook ''run'')))
   \<and> isinstance a_run Run \<and> \<not> isinstance a_run Experiment
   \<and> invoke (Suc (Suc 0)) HybridRecorder 1 (Args [a_run] []) w0 =
       (Inr (PyInt 0),
        \<lparr>calls = [Call 1 ''_call_on_run'' (Args [a_run] [])],
         heap = [(''run'', Args [a_run] [])]\<rparr>)"
  using RunComponent_call_delegates
          [of RunRecorder M_RunComponent_call "journal_hook ''run''" a_run 0 1 w0]
        RunComponent_call_delegates
          [of HybridRecorder M_HybridComponent_call "journal_hook ''run''" a_run 0 1 w0]
  by (simp add: getattr_cls_def RunRecorder_eq HybridRecorder_eq HybridComponent_eq RunComponent_eq
      hook_outcome_def journal_hook_def w0_def example_values)




text \<open>
  C6.  Let \<open>c\<close> be a concrete subtype of \<open>ExperimentComponent\<close> whose \<open>__call__\<close> is the
  one written in \<open>ExperimentComponent\<close> or the one written in \<open>HybridComponent\<close>.
  The hook \<open>_call_on_experiment\<close> runs on every argument in the first case and on every
  Experiment in the second.  When it raises \<open>err\<close>, the call raises \<open>err\<close>, the same
  exception and not a wrapper of it; the hook has been called once (no retry, no
  recovery) and the heap is as the hook left it.
\<close>

theorem ExperimentComponent_call_propagates_failure:
  assumes "getattr_cls c ''__call__'' = Some (Method False (Src m))"
      and "getattr_cls c ''_call_on_experiment'' = Some (Method False (Native hook))"
      and "m = M_ExperimentComponent_call \<or> (m = M_HybridComponent_call \<and> isinstance e Experiment)"
      and "hook self (Args [e] []) (heap w) = (Inl err, u')"
  shows "invoke (Suc (Suc d)) c self (Args [e] []) w =
           (Inl err, \<lparr>calls = calls w @ [Call self ''_call_on_experiment'' (Args [e] [])],
                      heap = u'\<rparr>)"
proof -
  have "invoke (Suc (Suc d)) c self (Args [e] []) w =
          hook_outcome hook self ''_call_on_experiment'' e w"
    using assms(1-3) invoke_ExperimentComponent [of c hook d self e w]
      invoke_HybridComponent_Experiment [of c hook e d self w]
    by auto
  then show ?thesis using assms(4) by (simp add: hook_outcome_def)
qed

theorem ExperimentComponent_call_propagates_failure_witness:
  "getattr_cls FailingRecorder ''__call__'' = Some (Method False (Src M_ExperimentComponent_call))
   \<and> getattr_cls FailingRecorder ''_call_on_experiment'' = Some (Method False (Native failing_hook))
   \<and> failing_hook 1 (Args [an_experiment] []) (heap w0) =
       (Inl (UserException ''disk full''), [(''failed'', Args [an_experiment] [])])
   \<and> invoke (Suc (Suc 0)) FailingRecorder 1 (Args [an_experiment] []) w0 =
       (Inl (UserException ''disk full''),
        \<lparr>calls = [Call 1 ''_call_on_experiment'' (Args [an_experiment] [])],
         heap = [(''failed'', Args [an_experiment] [])]\<rparr>)
   \<and> getattr_cls FailingHybrid ''__call__'' = Some (Method False (Src M_HybridComponent_call))
   \<and> getattr_cls FailingHybrid ''_call_on_experiment'' = Some (Method False (Native failing_hook))
   \<and> isinstance an_experiment Experiment
   \<and> invoke (Suc (Suc 0)) FailingHybrid 1 (Args [an_experiment] []) w0 =
       (Inl (UserException ''disk full''),
        \<lparr>calls = [Call 1 ''_call_on_experiment'' (Args [an_experiment] [])],
         heap = [(''failed'', Args [an_experiment] [])]\<rparr>)"
  using ExperimentComponent_call_propagates_failure
          [of FailingRecorder M_ExperimentComponent_call failing_hook an_experiment 1 w0
              "UserException ''disk full''" "[(''failed'', Args [an_experiment] [])]" 0]
        ExperimentComponent_call_propagates_failure
          [of FailingHybrid M_HybridComponent_call failing_hook an_experiment 1 w0
              "UserException ''disk full''" "[(''failed'', Args [an_experiment] [])]" 0]
  by (simp add: getattr_cls_def FailingRecorder_eq FailingHybrid_eq HybridComponent_eq
      ExperimentComponent_eq failing_hook_def w0_def example_values)

text \<open>
  C7.  Let \<open>c\<close> be a subtype of \<open>Logger\<close> that inherits \<open>Logger.__call__\<close> and implements
  the five methods \<open>log_experiment\<close>, \<open>log_run\<close>, \<open>_log_metrics\<close>, \<open>_log_params\<close> and
  \<open>_log_model\<close> as no-ops, and let the construction of \<open>c\<close> with an empty configuration
  have succeeded and returned the instance at \<open>self\<close>.  Then calling the instance on any
  object \<open>x\<close> returns \<open>None\<close>, raises nothing and leaves the heap as it was: on an
  Experiment, on a Run and on an unrelated object such as a plain integer alike.  (The
  construction succeeds for \<open>NullLogger\<close>, which implements \<open>__init__\<close> too; it cannot
  succeed for a class that leaves \<open>__init__\<close> as \<open>Logger\<close> declares it, abstract: lemma
  \<open>NullLogger5_not_constructed\<close>.)
\<close>

theorem NullLogger_accepts_any_object:
  assumes "getattr_cls c ''__call__'' = Some (Method False (Src M_Logger_call))"
      and "list_all (\<lambda>n. getattr_cls c n = Some (Method False (Native noop)))
             [''log_experiment'', ''log_run'', ''_log_metrics'', ''_log_params'', ''_log_model'']"
      and "instantiate depth c addr [] w = (Inr (PyObject mro self), w')"
  shows "fst (invoke (Suc (Suc d)) c self (Args [x] []) w') = Inr PyNone
         \<and> heap (snd (invoke (Suc (Suc d)) c self (Args [x] []) w')) = heap w'"
proof -
  have hooks: "getattr_cls c ''log_experiment'' = Some (Method False (Native noop))"
    "getattr_cls c ''log_run'' = Some (Method False (Native noop))"
    using assms(2) by simp_all
  show ?thesis
    by (simp add: invoke_Logger [OF assms(1) hooks] hook_outcome_def expr_stmt_def noop_def)
qed

theorem NullLogger_accepts_any_object_witness:
  "getattr_cls NullLogger ''__call__'' = Some (Method False (Src M_Logger_call))
   \<and> list_all (\<lambda>n. getattr_cls NullLogger n = Some (Method False (Native noop)))
        [''log_experiment'', ''log_run'', ''_log_metrics'', ''_log_params'', ''_log_model'']
   \<and> instantiate (Suc 0) NullLogger 7 [] w0 =
       (Inr (PyObject [''NullLogger'', ''Logger'', ''Component'', ''object''] 7), w0)
   \<and> fst (invoke (Suc (Suc 0)) NullLogger 7 (Args [an_experiment] []) w0) = Inr PyNone
   \<and> fst (invoke (Suc (Suc 0)) NullLogger 7 (Args [a_run] []) w0) = Inr PyNone
   \<and> fst (invoke (Suc (Suc 0)) NullLogger 7 (Args [PyInt 3] []) w0) = Inr PyNone"
  using NullLogger_accepts_any_object
          [where c = NullLogger and depth = "Suc 0" and addr = 7 and w = w0
             and mro = "[''NullLogger'', ''Logger'', ''Component'', ''object'']"
             and self = 7 and w' = w0 and d = 0 and x = an_experiment]
        NullLogger_accepts_any_object
          [where c = NullLogger and depth = "Suc 0" and addr = 7 and w = w0
             and mro = "[''NullLogger'', ''Logger'', ''Component'', ''object'']"
             and self = 7 and w' = w0 and d = 0 and x = a_run]
        NullLogger_accepts_any_object
          [where c = NullLogger and depth = "Suc 0" and addr = 7 and w = w0
             and mro = "[''NullLogger'', ''Logger'', ''Component'', ''object'']"
             and self = 7 and w' = w0 and d = 0 and x = "PyInt 3"]
        NullLogger_constructed [of 0 7 w0]
  by (simp add: getattr_cls_def new_object_def NullLogger_eq Logger_eq)

text \<open>
  C8.  \<open>HybridComponent.__call__\<close> and \<open>Logger.__call__\<close> keep and touch no state of their
  own.  The heap after a call is the heap that the dispatched hook returns when it is
  started in the heap before the call: the hook sees the heap unchanged, and nothing
  changes it after the hook.  When the argument is neither an Experiment nor a Run, the
  call returns \<open>None\<close> and the whole world, heap and log, is the one before the call: the
  state of the component and of the argument is unchanged.
\<close>

theorem call_changes_no_state:
  assumes "getattr_cls ch ''__call__'' = Some (Method False (Src M_HybridComponent_call))"
      and "getattr_cls ch ''_call_on_experiment'' = Some (Method False (Native on_experiment))"
      and "getattr_cls ch ''_call_on_run'' = Some (Method False (Native on_run))"
      and "getattr_cls cl ''__call__'' = Some (Method False (Src M_Logger_call))"
      and "getattr_cls cl ''log_experiment'' = Some (Method False (Native log_experiment))"
      and "getattr_cls cl ''log_run'' = Some (Method False (Native log_run))"
  shows "heap (snd (invoke (Suc (Suc d)) ch self (Args [x] []) w)) =
           (if isinstance x Experiment then snd (on_experiment self (Args [x] []) (heap w))
            else if isinstance x Run then snd (on_run self (Args [x] []) (heap w))
            else heap w)
         \<and> heap (snd (invoke (Suc (Suc d)) cl self (Args [x] []) w)) =
           (if isinstance x Experiment then snd (log_experiment self (Args [x] []) (heap w))
            else if isinstance x Run then snd (log_run self (Args [x] []) (heap w))
            else heap w)
         \<and> (\<not> isinstance x Experiment \<and> \<not> isinstance x Run \<longrightarrow>
              invoke (Suc (Suc d)) ch self (Args [x] []) w = (Inr PyNone, w)
              \<and> invoke (Suc (Suc d)) cl self (Args [x] []) w = (Inr PyNone, w))"
  using assms
  by (simp add: invoke_HybridComponent invoke_Logger hook_outcome_def expr_stmt_def
      split: prod.splits sum.splits)

theorem call_changes_no_state_witness:
  "getattr_cls HybridRecorder ''__call__'' = Some (Method False (Src M_HybridComponent_call))
   \<and> getattr_cls HybridRecorder ''_call_on_experiment'' =
       Some (Method False (Native (journal_hook ''experiment'')))
   \<and> getattr_cls HybridRecorder ''_call_on_run'' = Some (Method False (Native (journal_hook ''run'')))
   \<and> getattr_cls RecordingLogger ''__call__'' = Some (Method False (Src M_Logger_call))
   \<and> getattr_cls RecordingLogger ''log_experiment'' =
       Some (Method False (Native (journal_hook ''experiment'')))
   \<and> getattr_cls RecordingLogger ''log_run'' = Some (Method False (Native (journal_hook ''run'')))
   \<and> \<not> isinstance (PyInt 3) Experiment \<and> \<not> isinstance (PyInt 3) Run
   \<and> invoke (Suc (Suc 0)) HybridRecorder 1 (Args [PyInt 3] []) w0 = (Inr PyNone, w0)
   \<and> invoke (Suc (Suc 0)) RecordingLogger 1 (Args [PyInt 3] []) w0 = (Inr PyNone, w0)
   \<and> heap (snd (invoke (Suc (Suc 0)) RecordingLogger 1 (Args [a_run] []) w0)) =
       [(''run'', Args [a_run] [])]"
  using call_changes_no_state
          [of HybridRecorder "journal_hook ''experiment''" "journal_hook ''run''" RecordingLogger
              "journal_hook ''experiment''" "journal_hook ''run''" 0 1 "PyInt 3" w0]
        call_changes_no_state
          [of HybridRecorder "journal_hook ''experiment''" "journal_hook ''run''" RecordingLogger
              "journal_hook ''experiment''" "journal_hook ''run''" 0 1 a_run w0]
  by (simp add: getattr_cls_def HybridRecorder_eq HybridComponent_eq RecordingLogger_eq Logger_eq
      journal_hook_def w0_def example_values)

text \<open>
  C9.  Both bodies test \<open>isinstance(x, Experiment)\<close> first.  On an object that is an
  instance of both \<open>Experiment\<close> and \<open>Run\<close>, the call is exactly one call of the
  experiment handler (\<open>_call_on_experiment\<close>, \<open>log_experiment\<close>); the run handler
  (\<open>_call_on_run\<close>, \<open>log_run\<close>) is not called.
\<close>

theorem dispatch_tests_Experiment_first:
  assumes "getattr_cls ch ''__call__'' = Some (Method False (Src M_HybridComponent_call))"
      and "getattr_cls ch ''_call_on_experiment'' = Some (Method False (Native on_experiment))"
      and "getattr_cls ch ''_call_on_run'' = Some (Method False (Native on_run))"
      and "getattr_cls cl ''__call__'' = Some (Method False (Src M_Logger_call))"
      and "getattr_cls cl ''log_experiment'' = Some (Method False (Native log_experiment))"
      and "getattr_cls cl ''log_run'' = Some (Method False (Native log_run))"
      and "isinstance x Experiment" and "isinstance x Run"
  shows "invoke (Suc (Suc d)) ch self (Args [x] []) w =
           hook_outcome on_experiment self ''_call_on_experiment'' x w
         \<and> new_calls w (invoke (Suc (Suc d)) ch self (Args [x] []) w) =
             [Call self ''_call_on_experiment'' (Args [x] [])]
         \<and> invoke (Suc (Suc d)) cl self (Args [x] []) w =
             expr_stmt (hook_outcome log_experiment self ''log_experiment'' x w)
         \<and> new_calls w (invoke (Suc (Suc d)) cl self (Args [x] []) w) =
             [Call self ''log_experiment'' (Args [x] [])]"
  using assms by (simp add: invoke_HybridComponent invoke_Logger)

theorem dispatch_tests_Experiment_first_witness:
  "getattr_cls HybridRecorder ''__call__'' = Some (Method False (Src M_HybridComponent_call))
   \<and> getattr_cls HybridRecorder ''_call_on_experiment'' =
       Some (Method False (Native (journal_hook ''experiment'')))
   \<and> getattr_cls HybridRecorder ''_call_on_run'' = Some (Method False (Native (journal_hook ''run'')))
   \<and> getattr_cls RecordingLogger ''__call__'' = Some (Method False (Src M_Logger_call))
   \<and> getattr_cls RecordingLogger ''log_experiment'' =
       Some (Method False (Native (journal_hook ''experiment'')))
   \<and> getattr_cls RecordingLogger ''log_run'' = Some (Method False (Native (journal_hook ''run'')))
   \<and> isinstance a_both Experiment \<and> isinstance a_both Run
   \<and> invoke (Suc (Suc 0)) HybridRecorder 1 (Args [a_both] []) w0 =
       (Inr (PyInt 0),
        \<lparr>calls = [Call 1 ''_call_on_experiment'' (Args [a_both] [])],
         heap = [(''experiment'', Args [a_both] [])]\<rparr>)
   \<and> invoke (Suc (Suc 0)) RecordingLogger 1 (Args [a_both] []) w0 =
       (Inr PyNone,
        \<lparr>calls = [Call 1 ''log_experiment'' (Args [a_both] [])],
         heap = [(''experiment'', Args [a_both] [])]\<rparr>)"
  using dispatch_tests_Experiment_first
          [of HybridRecorder "journal_hook ''experiment''" "journal_hook ''run''" RecordingLogger
              "journal_hook ''experiment''" "journal_hook ''run''" a_both 0 1 w0]
  by (simp add: getattr_cls_def HybridRecorder_eq HybridComponent_eq RecordingLogger_eq Logger_eq
      hook_outcome_def expr_stmt_def journal_hook_def w0_def example_values)

text \<open>
  C10.  For every concrete subtype of \<open>Logger\<close>, whatever the arguments of the call and
  however few frames are left: the calls that \<open>__call__\<close> makes on \<open>self\<close> are calls of
  \<open>log_experiment\<close> or \<open>log_run\<close>, never of \<open>_log_metrics\<close>, \<open>_log_params\<close> or
  \<open>_log_model\<close>.  And two logger classes \<open>c\<close> and \<open>c'\<close> with the same \<open>log_experiment\<close>
  and \<open>log_run\<close> behave alike when called, whatever their three sub-operations are:
  these run only if \<open>log_experiment\<close> or \<open>log_run\<close> runs them.
\<close>

theorem Logger_call_reaches_only_log_experiment_and_log_run:
  assumes "getattr_cls c ''__call__'' = Some (Method False (Src M_Logger_call))"
      and "getattr_cls c ''log_experiment'' = Some (Method False (Native log_experiment))"
      and "getattr_cls c ''log_run'' = Some (Method False (Native log_run))"
      and "getattr_cls c' ''__call__'' = Some (Method False (Src M_Logger_call))"
      and "getattr_cls c' ''log_experiment'' = Some (Method False (Native log_experiment))"
      and "getattr_cls c' ''log_run'' = Some (Method False (Native log_run))"
  shows "calls (snd (invoke depth c self args w)) = calls w @ new_calls w (invoke depth c self args w)
         \<and> set (map callee (new_calls w (invoke depth c self args w)))
             \<subseteq> {''log_experiment'', ''log_run''}
         \<and> invoke depth c' self args w = invoke depth c self args w"
proof -
  obtain new where new: "calls (snd (invoke depth c self args w)) = calls w @ new"
      "set (map callee new) \<subseteq> {''log_experiment'', ''log_run''}"
    using invoke_Logger_log [OF assms(1-3)] by blast
  then have "new_calls w (invoke depth c self args w) = new"
    by (simp add: new_calls_def)
  with new invoke_Logger_same_hooks [OF assms] show ?thesis by simp
qed

theorem Logger_call_reaches_only_log_experiment_and_log_run_witness:
  "getattr_cls RecordingLogger ''__call__'' = Some (Method False (Src M_Logger_call))
   \<and> getattr_cls RecordingLogger ''log_experiment'' =
       Some (Method False (Native (journal_hook ''experiment'')))
   \<and> getattr_cls RecordingLogger ''log_run'' = Some (Method False (Native (journal_hook ''run'')))
   \<and> getattr_cls SilentLogger ''__call__'' = Some (Method False (Src M_Logger_call))
   \<and> getattr_cls SilentLogger ''log_experiment'' =
       Some (Method False (Native (journal_hook ''experiment'')))
   \<and> getattr_cls SilentLogger ''log_run'' = Some (Method False (Native (journal_hook ''run'')))
   \<and> getattr_cls SilentLogger ''_log_metrics'' = Some (Method False (Native failing_hook))
   \<and> getattr_cls RecordingLogger ''_log_metrics'' =
       Some (Method False (Native (journal_hook ''metrics'')))
   \<and> set (map callee (new_calls w0 (invoke (Suc (Suc 0)) RecordingLogger 1 (Args [a_run] []) w0)))
       \<subseteq> {''log_experiment'', ''log_run''}
   \<and> invoke (Suc (Suc 0)) SilentLogger 1 (Args [a_run] []) w0 =
       invoke (Suc (Suc 0)) RecordingLogger 1 (Args [a_run] []) w0"
  using Logger_call_reaches_only_log_experiment_and_log_run
          [of RecordingLogger "journal_hook ''experiment''" "journal_hook ''run''" SilentLogger
              "Suc (Suc 0)" 1 "Args [a_run] []" w0]
  by (simp add: getattr_cls_def RecordingLogger_eq SilentLogger_eq Logger_eq)

end
